theory Spec2Isabelle
  imports Complex_Main "HOL-Library.Char_ord" "HOL-Library.List_Lexorder"
begin

section \<open>Wiktionary semantic rules (conceptnet5/wiktparse/rules.py)\<close>

text \<open>
  A shallow embedding of the semantic layer of the Wiktionary reader. Python strings are
  modelled as \<open>string\<close> (non-ASCII headings are written as their UTF-8 bytes), \<open>None\<close> as
  the \<open>None\<close> of an option type, and every \<open>raise\<close> as the \<open>Inl\<close> of a sum type.
\<close>

subsection \<open>Exceptions and truthiness\<close>

datatype error =
    TypeError
  | KeyError
  | ValueError
  | UnboundLocalError
  | AssertionError
  | ParseFailure string

text \<open>Python's truth value of a possibly-\<open>None\<close> string: \<open>None\<close> and \<open>''\<close> are false.\<close>

fun truthy :: "string option \<Rightarrow> bool" where
  "truthy None = False"
| "truthy (Some s) = (s \<noteq> [])"

text \<open>\<open>a or b\<close> on possibly-\<open>None\<close> strings.\<close>

definition py_or :: "string option \<Rightarrow> string option \<Rightarrow> string option" where
  "py_or a b = (if truthy a then a else b)"

subsection \<open>EdgeInfo and LinkedText\<close>

text \<open>
  \<open>EdgeInfo.__init__\<close> raises \<open>TypeError\<close> when the target is \<open>None\<close>, so an existing
  EdgeInfo always has a target; the other three fields may be \<open>None\<close>. Senses and
  relations are kept as strings.
\<close>

record EdgeInfo =
  language :: "string option"
  target :: string
  sense :: "string option"
  rel :: "string option"

definition EdgeInfo_init ::
  "string option \<Rightarrow> string option \<Rightarrow> string option \<Rightarrow> string option \<Rightarrow> error + EdgeInfo" where
  "EdgeInfo_init lang tgt sns r =
     (case tgt of
        None \<Rightarrow> Inl TypeError
      | Some t \<Rightarrow> Inr \<lparr>language = lang, target = t, sense = sns, rel = r\<rparr>)"

definition set_language :: "EdgeInfo \<Rightarrow> string option \<Rightarrow> EdgeInfo" where
  "set_language self lang =
     \<lparr>language = lang, target = target self, sense = sense self, rel = rel self\<rparr>"

definition set_default_language :: "EdgeInfo \<Rightarrow> string option \<Rightarrow> EdgeInfo" where
  "set_default_language self lang =
     (if truthy (language self) then self
      else \<lparr>language = lang, target = target self, sense = sense self, rel = rel self\<rparr>)"

definition set_sense :: "EdgeInfo \<Rightarrow> string option \<Rightarrow> EdgeInfo" where
  "set_sense self sns =
     \<lparr>language = language self, target = target self, sense = sns, rel = rel self\<rparr>"

definition set_rel :: "EdgeInfo \<Rightarrow> string option \<Rightarrow> EdgeInfo" where
  "set_rel self r =
     \<lparr>language = language self, target = target self, sense = sense self, rel = r\<rparr>"

text \<open>
  A LinkedText holds a text and a list of links. The text is a string in most places but
  \<open>external_link\<close> stores \<open>None\<close> when a link has no visible text, and \<open>join_text\<close> tests
  for it, so the field is optional here. The field is called \<open>ltext\<close> because \<open>text\<close> is
  reserved.
\<close>

record LinkedText =
  ltext :: "string option"
  links :: "EdgeInfo list"

text \<open>
  \<open>LinkedText.__init__(text, links)\<close>: the first argument is either a (possibly \<open>None\<close>)
  string, \<open>Inl\<close>, or itself a LinkedText, \<open>Inr\<close>.
\<close>

definition LinkedText_init :: "string option + LinkedText \<Rightarrow> EdgeInfo list \<Rightarrow> LinkedText" where
  "LinkedText_init txt lks =
     (case txt of
        Inr lt \<Rightarrow> \<lparr>ltext = ltext lt, links = links lt @ lks\<rparr>
      | Inl s \<Rightarrow> \<lparr>ltext = s, links = lks\<rparr>)"

text \<open>
  \<open>LinkedText.__add__\<close>: \<open>self.text + ' ' + other.text\<close> raises \<open>TypeError\<close> when either
  text is \<open>None\<close>.
\<close>

definition LinkedText_add :: "LinkedText \<Rightarrow> LinkedText \<Rightarrow> error + LinkedText" where
  "LinkedText_add self other =
     (case ltext self of
        None \<Rightarrow> Inl TypeError
      | Some a \<Rightarrow>
          (case ltext other of
             None \<Rightarrow> Inl TypeError
           | Some b \<Rightarrow>
               Inr (LinkedText_init (Inl (Some (a @ '' '' @ b))) (links self @ links other))))"

subsection \<open>Edge completion\<close>

text \<open>
  The keyword arguments that \<open>complete_edge\<close> hands to \<open>make_edge\<close>; the fields \<open>rel\<close>,
  \<open>start\<close> and \<open>end\<close> carry the names of the local variables passed for them.
\<close>

record edge_args =
  rel_uri :: string
  start_uri :: string
  end_uri :: string
  dataset :: string
  license :: string
  sources :: "string list"
  weight :: real

text \<open>
  What the module imports or is constructed with, and does not define itself:
  \<^item> \<open>default_language\<close>: the language the semantics object was built for;
  \<^item> \<open>parse\<close>: the generated PEG parser run with these semantics on a text from a start
    rule, yielding the section's list or raising (the walker uses the elements of the
    list as EdgeInfo values);
  \<^item> \<open>titles\<close>: the rows of the title database, as a predicate on (language, title);
  \<^item> \<open>str_lower\<close>: Python's \<open>str.lower\<close>;
  \<^item> \<open>BAD_NAMES_FOR_THINGS\<close>, \<open>normalized_concept_uri\<close> (language, text and the further
    positional arguments), \<open>join_uri\<close> (its pieces), \<open>make_edge\<close>, \<open>cc_sharealike\<close> and
    \<open>ENGLISH_NAME_TO_CODE\<close> from the other conceptnet5 modules.
\<close>

record 'e env =
  default_language :: string
  parse :: "string \<Rightarrow> string \<Rightarrow> error + EdgeInfo list"
  titles :: "string \<times> string \<Rightarrow> bool"
  str_lower :: "string \<Rightarrow> string"
  BAD_NAMES_FOR_THINGS :: "string set"
  normalized_concept_uri :: "string option \<Rightarrow> string \<Rightarrow> string option list \<Rightarrow> string"
  join_uri :: "string list \<Rightarrow> string"
  make_edge :: "edge_args \<Rightarrow> 'e"
  cc_sharealike :: string
  ENGLISH_NAME_TO_CODE :: "string \<rightharpoonup> string"

text \<open>\<open>x in BAD_NAMES_FOR_THINGS\<close> for a possibly-\<open>None\<close> string (\<open>None\<close> is not a name).\<close>

definition in_bad_names :: "'e env \<Rightarrow> string option \<Rightarrow> bool" where
  "in_bad_names E x = (case x of None \<Rightarrow> False | Some s \<Rightarrow> s \<in> BAD_NAMES_FOR_THINGS E)"

text \<open>\<open>rel = self.rel or 'RelatedTo'\<close>.\<close>

definition rel_or_default :: "EdgeInfo \<Rightarrow> string" where
  "rel_or_default self =
     (case rel self of
        None \<Rightarrow> ''RelatedTo''
      | Some r \<Rightarrow> (if r = [] then ''RelatedTo'' else r))"

text \<open>\<open>s.startswith(p)\<close>.\<close>

fun startswith :: "string \<Rightarrow> string \<Rightarrow> bool" where
  "startswith s [] = True"
| "startswith [] (p # ps) = False"
| "startswith (c # cs) (p # ps) = (c = p \<and> startswith cs ps)"

definition complete_edge ::
  "'e env \<Rightarrow> EdgeInfo \<Rightarrow> string \<Rightarrow> string \<Rightarrow> string \<Rightarrow> string option \<Rightarrow> 'e" where
  "complete_edge E self rule_name headlang headword headpos =
     (let sense0 = (if headpos = None then None else sense self);
          sense1 = (if in_bad_names E sense0 then None else sense0);
          start0 = normalized_concept_uri E (Some headlang) headword [headpos, sense1];
          end0 = normalized_concept_uri E (language self) (target self) [];
          rel0 = rel_or_default self;
          inverted = startswith rel0 ''~'';
          rel1 = (if inverted then drop 1 rel0 else rel0);
          start1 = (if inverted then end0 else start0);
          end1 = (if inverted then start0 else end0)
      in make_edge E
           \<lparr>rel_uri = join_uri E [''/r'', rel1],
            start_uri = start1,
            end_uri = end1,
            dataset = ''/d/wiktionary/en/'' @ headlang,
            license = cc_sharealike E,
            sources = [join_uri E [''/s/web/en.wiktionary.org/wiki'', headword],
                       join_uri E [''/s/rule'', rule_name]],
            weight = 1\<rparr>)"

subsection \<open>join_text\<close>

text \<open>
  Keys of a template's argument dictionary: positional arguments are numbered from 1,
  named arguments are keyed by their name.
\<close>

datatype arg_key = Pos nat | Named string

type_synonym template_args = "(arg_key \<times> LinkedText option) list"

text \<open>
  The elements \<open>join_text\<close> distinguishes: \<open>None\<close>, a string, a LinkedText, a dict (an
  unhandled template: its name and arguments), and a value of any other type.
\<close>

datatype ast_item =
    INone
  | IStr string
  | ILinked LinkedText
  | IDict string template_args
  | IOther

text \<open>The \<open>for item in lst\<close> loop, with the two accumulators \<open>texts\<close> and \<open>links\<close>.\<close>

fun join_loop ::
  "ast_item list \<Rightarrow> string list \<Rightarrow> EdgeInfo list \<Rightarrow> error + (string list \<times> EdgeInfo list)" where
  "join_loop [] texts lks = Inr (texts, lks)"
| "join_loop (INone # rest) texts lks = join_loop rest texts lks"
| "join_loop (IStr s # rest) texts lks = join_loop rest (texts @ [s]) lks"
| "join_loop (ILinked lt # rest) texts lks =
     join_loop rest
       (case ltext lt of None \<Rightarrow> texts | Some t \<Rightarrow> texts @ [t])
       (lks @ links lt)"
| "join_loop (IDict name targs # rest) texts lks = join_loop rest texts lks"
| "join_loop (IOther # rest) texts lks = Inl TypeError"

definition join_text :: "ast_item list option \<Rightarrow> error + LinkedText option" where
  "join_text lst =
     (case lst of
        None \<Rightarrow> Inr None
      | Some items \<Rightarrow>
          (case join_loop items [] [] of
             Inl e \<Rightarrow> Inl e
           | Inr (texts, lks) \<Rightarrow>
               Inr (Some (LinkedText_init (Inl (Some (concat texts))) lks))))"

subsection \<open>sense_num\<close>

text \<open>
  The AST of the \<open>sense_num\<close> rule: \<open>first\<close>, \<open>last\<close>, the list \<open>next\<close> and the list
  \<open>next_range\<close>; a name that matched nothing is \<open>None\<close>.
\<close>

record range_ast =
  range_start :: string
  range_end :: string

record sense_num_ast =
  sn_first :: string
  sn_last :: "string option"
  sn_next :: "string list option"
  sn_next_range :: "range_ast list option"

definition is_digit :: "char \<Rightarrow> bool" where
  "is_digit c = (CHR ''0'' \<le> c \<and> c \<le> CHR ''9'')"

text \<open>
  \<open>int(s)\<close> on a token of the \<open>num\<close> rule (one or two digits, then at most one letter):
  the decimal value when every character is a digit, \<open>ValueError\<close> otherwise.
\<close>

definition py_int :: "string \<Rightarrow> error + nat" where
  "py_int s =
     (if s \<noteq> [] \<and> list_all is_digit s
      then Inr (foldl (\<lambda>acc c. 10 * acc + (of_char c - 48)) 0 s)
      else Inl ValueError)"

text \<open>\<open>str(i)\<close> for a natural number.\<close>

fun py_str :: "nat \<Rightarrow> string" where
  "py_str n =
     (if n < 10 then [char_of (48 + n)]
      else py_str (n div 10) @ [char_of (48 + n mod 10)])"

definition expand_range :: "range_ast \<Rightarrow> error + string list" where
  "expand_range r =
     (case py_int (range_start r) of
        Inl e \<Rightarrow> Inl e
      | Inr start \<Rightarrow>
          (case py_int (range_end r) of
             Inl e \<Rightarrow> Inl e
           | Inr end' \<Rightarrow> Inr (map py_str [start ..< end' + 1])))"

text \<open>The loop \<open>for elem in ast['next_range']: num_list.extend(expand_range(elem))\<close>.\<close>

fun extend_ranges :: "string list \<Rightarrow> range_ast list \<Rightarrow> error + string list" where
  "extend_ranges num_list [] = Inr num_list"
| "extend_ranges num_list (elem # rest) =
     (case expand_range elem of
        Inl e \<Rightarrow> Inl e
      | Inr xs \<Rightarrow> extend_ranges (num_list @ xs) rest)"

text \<open>\<open>sorted\<close> compares strings character by character, a proper prefix first.\<close>

definition sense_num :: "sense_num_ast \<Rightarrow> error + string list" where
  "sense_num ast =
     (let num_list = [sn_first ast] in
      case (if truthy (sn_last ast) then sn_last ast else None) of
        Some l \<Rightarrow> Inr (sort (num_list @ [l]))
      | None \<Rightarrow>
         (let num_list1 = (case sn_next ast of None \<Rightarrow> num_list | Some ns \<Rightarrow> num_list @ ns)
          in case sn_next_range ast of
               None \<Rightarrow> Inr (sort num_list1)
             | Some rs \<Rightarrow>
                 (case extend_ranges num_list1 rs of
                    Inl e \<Rightarrow> Inl e
                  | Inr num_list2 \<Rightarrow> Inr (sort num_list2))))"

text \<open>
  The parse rule of the docstring, read as the PEG it is (ordered choice, greedy
  repetition, no implicit whitespace):
  \<^verbatim>\<open>num = ?/[0-9][0-9]?[a-e]?/? ;\<close>
  \<^verbatim>\<open>num_range = range_start:num SP dash SP range_end:num ;\<close>
  \<^verbatim>\<open>sense_num = first:num [ SP ( dash | slash | plus_sign ) SP last:num |\<close>
  \<^verbatim>\<open>            { comma SP ( next+:num !dash | next_range+:num_range) }+ ] ;\<close>
  Each matcher returns what it matched and the rest of the input, or \<open>None\<close>.
\<close>

definition match_num :: "string \<Rightarrow> (string \<times> string) option" where
  "match_num s =
     (case s of
        [] \<Rightarrow> None
      | c1 # r1 \<Rightarrow>
          if \<not> is_digit c1 then None
          else
            (let d2 = takeWhile is_digit (take 1 r1);
                 r2 = drop (length d2) r1;
                 l3 = takeWhile (\<lambda>c. CHR ''a'' \<le> c \<and> c \<le> CHR ''e'') (take 1 r2);
                 r3 = drop (length l3) r2
             in Some (c1 # d2 @ l3, r3)))"

text \<open>\<open>SP = ?/[ \t]*/?\<close>.\<close>

definition skip_SP :: "string \<Rightarrow> string" where
  "skip_SP s = dropWhile (\<lambda>c. c = CHR '' '' \<or> c = CHR 0x09) s"

text \<open>The rule \<open>dash\<close>: a hyphen or an em dash (the bytes E2 80 94).\<close>

definition match_dash :: "string \<Rightarrow> string option" where
  "match_dash s =
     (if startswith s ''-'' then Some (drop 1 s)
      else if startswith s [CHR 0xE2, CHR 0x80, CHR 0x94] then Some (drop 3 s)
      else None)"

definition match_operator :: "string \<Rightarrow> string option" where
  "match_operator s =
     (case match_dash s of
        Some r \<Rightarrow> Some r
      | None \<Rightarrow>
          if startswith s ''/'' then Some (drop 1 s)
          else if startswith s ''+'' then Some (drop 1 s)
          else None)"

definition match_num_range :: "string \<Rightarrow> (range_ast \<times> string) option" where
  "match_num_range s =
     (case match_num s of
        None \<Rightarrow> None
      | Some (a, r1) \<Rightarrow>
          (case match_dash (skip_SP r1) of
             None \<Rightarrow> None
           | Some r2 \<Rightarrow>
               (case match_num (skip_SP r2) of
                  None \<Rightarrow> None
                | Some (b, r3) \<Rightarrow> Some (\<lparr>range_start = a, range_end = b\<rparr>, r3))))"

text \<open>One round of the repetition: \<open>comma SP ( next+:num !dash | next_range+:num_range )\<close>.\<close>

definition match_list_element :: "string \<Rightarrow> ((string + range_ast) \<times> string) option" where
  "match_list_element s =
     (if \<not> startswith s '','' then None
      else
        (let r = skip_SP (drop 1 s) in
         case (case match_num r of
                 Some (n, r1) \<Rightarrow> (if match_dash r1 = None then Some (Inl n, r1) else None)
               | None \<Rightarrow> None) of
           Some res \<Rightarrow> Some res
         | None \<Rightarrow>
             (case match_num_range r of
                Some (rg, r1) \<Rightarrow> Some (Inr rg, r1)
              | None \<Rightarrow> None)))"

lemma match_num_shorter: "match_num s = Some (n, r) \<Longrightarrow> length r < length s"
  by (auto simp: match_num_def Let_def split: list.splits if_splits)

lemma skip_SP_length: "length (skip_SP s) \<le> length s"
  by (simp add: skip_SP_def length_dropWhile_le)

lemma match_dash_shorter: "match_dash s = Some r \<Longrightarrow> length r < length s"
  by (cases s) (auto simp: match_dash_def split: if_splits)

lemma match_num_range_shorter: "match_num_range s = Some (rg, r) \<Longrightarrow> length r < length s"
proof -
  assume a: "match_num_range s = Some (rg, r)"
  then obtain x r1 r2 y where
    1: "match_num s = Some (x, r1)" and
    2: "match_dash (skip_SP r1) = Some r2" and
    3: "match_num (skip_SP r2) = Some (y, r)"
    by (auto simp: match_num_range_def split: option.splits)
  have "length r < length (skip_SP r2)" using 3 by (rule match_num_shorter)
  also have "\<dots> \<le> length r2" by (rule skip_SP_length)
  also have "\<dots> < length (skip_SP r1)" using 2 by (rule match_dash_shorter)
  also have "\<dots> \<le> length r1" by (rule skip_SP_length)
  also have "\<dots> < length s" using 1 by (rule match_num_shorter)
  finally show ?thesis .
qed

lemma match_list_element_shorter:
  assumes "match_list_element s = Some (x, r)"
  shows "length r < length s"
proof -
  from assms have c: "startswith s '',''"
    by (auto simp: match_list_element_def split: if_splits)
  then have s: "s \<noteq> []" by (cases s) auto
  let ?r = "skip_SP (drop 1 s)"
  have le: "length ?r < length s"
    using skip_SP_length [of "drop 1 s"] s by (cases s) auto
  from assms c have "(\<exists>n. match_num ?r = Some (n, r)) \<or> (\<exists>rg. match_num_range ?r = Some (rg, r))"
    by (auto simp: match_list_element_def Let_def split: if_splits option.splits)
  then have "length r < length ?r"
    using match_num_shorter match_num_range_shorter by blast
  with le show ?thesis by simp
qed

text \<open>The repetition \<open>{ ... }\<close>: rounds are taken while they match.\<close>

function match_list_elements :: "string \<Rightarrow> (string + range_ast) list \<times> string" where
  "match_list_elements s =
     (case match_list_element s of
        None \<Rightarrow> ([], s)
      | Some (x, r) \<Rightarrow> (case match_list_elements r of (xs, r') \<Rightarrow> (x # xs, r')))"
  by pat_completeness auto
termination
  by (relation "measure length") (auto dest: match_list_element_shorter)

text \<open>A list-valued name of the AST is \<open>None\<close> when nothing was added to it.\<close>

definition list_or_None :: "'a list \<Rightarrow> 'a list option" where
  "list_or_None xs = (if xs = [] then None else Some xs)"

fun lefts :: "('a + 'b) list \<Rightarrow> 'a list" where
  "lefts [] = []"
| "lefts (Inl a # xs) = a # lefts xs"
| "lefts (Inr b # xs) = lefts xs"

fun rights :: "('a + 'b) list \<Rightarrow> 'b list" where
  "rights [] = []"
| "rights (Inl a # xs) = rights xs"
| "rights (Inr b # xs) = b # rights xs"

definition parse_sense_num :: "string \<Rightarrow> (sense_num_ast \<times> string) option" where
  "parse_sense_num s =
     (case match_num s of
        None \<Rightarrow> None
      | Some (first, r) \<Rightarrow>
          (case (case match_operator (skip_SP r) of
                   None \<Rightarrow> None
                 | Some r1 \<Rightarrow> match_num (skip_SP r1)) of
             Some (l, r2) \<Rightarrow>
               Some (\<lparr>sn_first = first, sn_last = Some l, sn_next = None,
                      sn_next_range = None\<rparr>, r2)
           | None \<Rightarrow>
               (case match_list_elements r of
                  (xs, r') \<Rightarrow>
                    Some (\<lparr>sn_first = first, sn_last = None,
                           sn_next = list_or_None (lefts xs),
                           sn_next_range = list_or_None (rights xs)\<rparr>, r'))))"

subsection \<open>link_template\<close>

record link_template_ast =
  linktype :: string
  subtypes :: "string list option"
  args :: template_args

text \<open>
  The local \<open>args\<close> is a \<open>defaultdict(lambda: None)\<close> from keys to texts, kept here as an
  association list in insertion order. \<open>arg\<close> reads it. (A read of a missing key also
  stores \<open>None\<close> under it; the only place that looks at the keys, \<open>lastarg\<close> below, is
  reached after reads of \<open>'lang'\<close> and \<open>1\<close> alone, which cannot change whether
  \<open>lastarg >= 2\<close> nor its value then, so reads are modelled as pure.)
\<close>

type_synonym text_args = "(arg_key \<times> string option) list"

definition arg :: "text_args \<Rightarrow> arg_key \<Rightarrow> string option" where
  "arg a k = (case map_of a k of None \<Rightarrow> None | Some v \<Rightarrow> v)"

text \<open>\<open>args[k] = v\<close>: overwrite in place, or add at the end.\<close>

fun dict_set :: "text_args \<Rightarrow> arg_key \<Rightarrow> string option \<Rightarrow> text_args" where
  "dict_set [] k v = [(k, v)]"
| "dict_set ((k', v') # rest) k v =
     (if k' = k then (k, v) # rest else (k', v') # dict_set rest k v)"

text \<open>
  The first loop: the text of every argument that is not \<open>None\<close>, and the links of all of
  them in the order of the dictionary.
\<close>

fun collect_args :: "template_args \<Rightarrow> text_args \<Rightarrow> EdgeInfo list \<Rightarrow> text_args \<times> EdgeInfo list" where
  "collect_args [] a lks = (a, lks)"
| "collect_args ((k, None) # rest) a lks = collect_args rest a lks"
| "collect_args ((k, Some v) # rest) a lks =
     collect_args rest (dict_set a k (ltext v)) (lks @ links v)"

text \<open>\<open>str.strip()\<close>, on the ASCII whitespace characters.\<close>

definition is_space :: "char \<Rightarrow> bool" where
  "is_space c = (c \<in> set [CHR '' '', CHR 0x09, CHR 0x0A, CHR 0x0B, CHR 0x0C, CHR 0x0D])"

definition py_strip :: "string \<Rightarrow> string" where
  "py_strip s = rev (dropWhile is_space (rev (dropWhile is_space s)))"

text \<open>\<open>needle in hay\<close> for two strings: \<open>needle\<close> occurs in \<open>hay\<close>.\<close>

fun py_in_str :: "string \<Rightarrow> string \<Rightarrow> bool" where
  "py_in_str needle [] = (needle = [])"
| "py_in_str needle (h # hs) = (startswith (h # hs) needle \<or> py_in_str needle hs)"

text \<open>\<open>a + b\<close> on texts, either of which may be \<open>None\<close>.\<close>

definition str_add :: "string option \<Rightarrow> string option \<Rightarrow> error + string option" where
  "str_add a b =
     (case a of
        None \<Rightarrow> Inl TypeError
      | Some x \<Rightarrow> (case b of None \<Rightarrow> Inl TypeError | Some y \<Rightarrow> Inr (Some (x @ y))))"

text \<open>\<open>max([0] + [arg for arg in args if isinstance(arg, int)])\<close>.\<close>

fun int_keys :: "text_args \<Rightarrow> nat list" where
  "int_keys [] = []"
| "int_keys ((Pos n, v) # rest) = n # int_keys rest"
| "int_keys ((Named x, v) # rest) = int_keys rest"

definition lastarg_of :: "text_args \<Rightarrow> nat" where
  "lastarg_of a = fold max (int_keys a) 0"

text \<open>The loop \<open>for argnum in range(1, 4)\<close> of the compound-like templates.\<close>

fun derived_links :: "text_args \<Rightarrow> string option \<Rightarrow> nat list \<Rightarrow> EdgeInfo list \<Rightarrow> error + EdgeInfo list" where
  "derived_links a lang [] lks = Inr lks"
| "derived_links a lang (argnum # rest) lks =
     (if truthy (arg a (Pos argnum)) then
        (case EdgeInfo_init lang (arg a (Pos argnum)) None (Some ''DerivedFrom'') of
           Inl e \<Rightarrow> Inl e
         | Inr ei \<Rightarrow> derived_links a lang rest (lks @ [ei]))
      else derived_links a lang rest lks)"

text \<open>A link list of one EdgeInfo, with the text that goes with it.\<close>

definition one_link ::
  "string option \<Rightarrow> string option \<Rightarrow> string option \<Rightarrow> string option \<Rightarrow> error + LinkedText" where
  "one_link txt lang tgt r =
     (case EdgeInfo_init lang tgt None r of
        Inl e \<Rightarrow> Inl e
      | Inr ei \<Rightarrow> Inr (LinkedText_init (Inl txt) [ei]))"

definition link_template :: "'e env \<Rightarrow> link_template_ast \<Rightarrow> error + LinkedText" where
  "link_template E ast =
     (case collect_args (args ast) [] [] of (a, lks) \<Rightarrow>
      let lt = linktype ast;
          subs = (case subtypes ast of None \<Rightarrow> [] | Some xs \<Rightarrow> xs)
      in
      if lt = ''l'' \<and> subs \<noteq> [] \<and> truthy (arg a (Pos 1)) then
        one_link (arg a (Pos 1)) (Some (py_strip (hd subs))) (arg a (Pos 1)) None
      else if lt \<in> set [''l'', ''term/t''] \<and> truthy (arg a (Pos 2)) then
        one_link (py_or (arg a (Pos 3)) (arg a (Pos 2))) (arg a (Pos 1)) (arg a (Pos 2)) None
      else if lt = ''term'' \<and> truthy (arg a (Pos 1)) then
        one_link (py_or (arg a (Pos 2)) (arg a (Pos 1))) (arg a (Named ''lang''))
          (arg a (Pos 1)) None
      else if lt = ''ja-l'' \<and> truthy (arg a (Pos 1)) then
        one_link (arg a (Pos 1)) (Some ''ja'') (arg a (Pos 1)) None
      else if lt = ''ko-inline'' \<and> truthy (arg a (Pos 1)) then
        one_link (arg a (Pos 1)) (Some ''ko'') (arg a (Pos 1)) None
      else if lt \<in> set [''back-form'', ''clipping'', ''-er''] \<and> truthy (arg a (Pos 1)) then
        one_link (Some []) (py_or (arg a (Named ''lang'')) (Some (default_language E)))
          (arg a (Pos 1)) (Some ''DerivedFrom'')
      else if py_in_str lt ''borrowing'' \<and> truthy (arg a (Pos 2)) then
        one_link (Some []) (arg a (Pos 1)) (arg a (Pos 2)) (Some ''DerivedFrom'')
      else if lt \<in> set [''blend'', ''calque'', ''compound'', ''confix'', ''prefix'', ''suffix''] then
        (let lang = py_or (arg a (Named ''lang'')) (Some (default_language E));
             a1 = (if lt \<in> set [''prefix'', ''confix''] \<and> truthy (arg a (Pos 1))
                   then dict_set a (Pos 1) (map_option (\<lambda>x. x @ ''-'') (arg a (Pos 1)))
                   else a);
             a2 = (if lt = ''suffix'' \<and> truthy (arg a1 (Pos 2))
                   then dict_set a1 (Pos 2) (map_option (\<lambda>x. ''-'' @ x) (arg a1 (Pos 2)))
                   else a1)
         in case (if lt = ''confix'' \<and> lastarg_of a2 \<ge> 2
                  then (case str_add (Some ''-'') (arg a2 (Pos (lastarg_of a2))) of
                          Inl e \<Rightarrow> Inl e
                        | Inr v \<Rightarrow> Inr (dict_set a2 (Pos (lastarg_of a2)) v))
                  else Inr a2) of
              Inl e \<Rightarrow> Inl e
            | Inr a3 \<Rightarrow>
                (case derived_links a3 lang [1, 2, 3] [] of
                   Inl e \<Rightarrow> Inl e
                 | Inr lks' \<Rightarrow> Inr (LinkedText_init (Inl (Some [])) lks')))
      else if lt = ''etycomp'' \<and> truthy (arg a (Pos 2)) then
        (let lang1 = py_or (arg a (Named ''lang1'')) (Some (default_language E));
             lang2 = py_or (arg a (Named ''lang2''))
                       (py_or (arg a (Named ''lang1'')) (Some (default_language E)))
         in case EdgeInfo_init lang1 (arg a (Pos 1)) None (Some ''EtymologicallyDerivedFrom'') of
              Inl e \<Rightarrow> Inl e
            | Inr e1 \<Rightarrow>
                (case EdgeInfo_init lang2 (arg a (Pos 2)) None
                        (Some ''EtymologicallyDerivedFrom'') of
                   Inl e \<Rightarrow> Inl e
                 | Inr e2 \<Rightarrow> Inr (LinkedText_init (Inl (Some [])) [e1, e2])))
      else Inr (LinkedText_init (Inl (Some [])) lks))"

subsection \<open>The tables\<close>

definition POS_HEADINGS :: "string \<rightharpoonup> (string \<rightharpoonup> string)" where
  "POS_HEADINGS =
     map_of
       [(''en'', map_of
           [(''Noun'', ''n''),
            (''Proper noun'', ''n''),
            (''Verb'', ''v''),
            (''Adjective'', ''a''),
            (''Adverb'', ''r'')]),
        (''de'', map_of
           [(''Substantiv'', ''n''),
            (''Eigenname'', ''n''),
            (''Nachname'', ''n''),
            (''Vorname'', ''n''),
            (''Toponym'', ''n''),
            (''Verb'', ''v''),
            (''Adjektiv'', ''a''),
            (''Adverb'', ''r'')])]"

definition SKIPPED_LANGUAGES :: "string list" where
  "SKIPPED_LANGUAGES = [''Lojban'', ''Translingual'', ''American Sign Language'']"

text \<open>Heading to (rule, relation). The umlauts of the German headings are UTF-8 bytes.\<close>

definition RULES_AND_RELATIONS_MAP ::
  "string \<rightharpoonup> (string \<rightharpoonup> string option \<times> string option)" where
  "RULES_AND_RELATIONS_MAP =
     map_of
       [(''en'', map_of
           [(''Translations'', (Some ''translation_section'', None)),
            (''Synonyms'', (Some ''link_section'', Some ''Synonym'')),
            (''Antonyms'', (Some ''link_section'', Some ''Antonym'')),
            (''Hypernyms'', (Some ''link_section'', Some ''IsA'')),
            (''Hyponyms'', (Some ''link_section'', Some ''~IsA'')),
            (''Holonyms'', (Some ''link_section'', Some ''PartOf'')),
            (''Meronyms'', (Some ''link_section'', Some ''PartOf'')),
            (''Derived terms'', (Some ''link_section'', Some ''~DerivedFrom'')),
            (''Descendants'', (Some ''link_section'', Some ''~DerivedFrom'')),
            (''Compounds'', (Some ''link_section'', Some ''~CompoundDerivedFrom'')),
            (''Related terms'', (Some ''link_section'', Some ''RelatedTo'')),
            (''See also'', (Some ''link_section'', Some ''RelatedTo'')),
            (''Pronunciation'', (None, None)),
            (''Anagrams'', (None, None)),
            (''Statistics'', (None, None)),
            (''References'', (None, None)),
            (''Quotations'', (None, None)),
            (''Romanization'', (None, None)),
            (''Usage notes'', (None, None))]),
        (''de'', map_of
           [(''Bedeutungen'', (Some ''definition_section_de'', None)),
            (CHR 0xC3 # CHR 0x9C # ''bersetzungen'', (Some ''translation_section_de'', None)),
            (''Herkunft'', (Some ''etymology_section'', Some ''EtymologicallyDerivedFrom'')),
            (CHR 0xC3 # CHR 0x84 # ''hnlichkeiten'', (Some ''link_section'', Some ''RelatedTo'')),
            (''Sinnverwandte W'' @ CHR 0xC3 # CHR 0xB6 # ''rter'',
               (Some ''link_section'', Some ''RelatedTo'')),
            (''Gegenw'' @ CHR 0xC3 # CHR 0xB6 # ''rter'', (Some ''link_section'', Some ''Antonym'')),
            (''Synonyme'', (Some ''link_section'', Some ''Synonym'')),
            (''Oberbegriffe'', (Some ''link_section'', Some ''IsA'')),
            (''Unterbegriffe'', (Some ''link_section'', Some ''~IsA'')),
            (''Wortbildungen'', (Some ''link_section'', Some ''~DerivedFrom''))])]"

definition language_code :: "'e env \<Rightarrow> string \<Rightarrow> string option" where
  "language_code E language_name = ENGLISH_NAME_TO_CODE E language_name"

subsection \<open>The entry walker\<close>

text \<open>
  The input of the walker: an entry with its language name, its title and its top-level
  sections; a section with its heading, its text and its subsections.
\<close>

datatype Section = Section (heading: string) (section_text: string) (sections: "Section list")

record StructuredEntry =
  entry_language :: string
  title :: string
  entry_sections :: "Section list"

definition get_rule_for_heading :: "'e env \<Rightarrow> string \<Rightarrow> string option \<times> string option" where
  "get_rule_for_heading E hd_str =
     (case RULES_AND_RELATIONS_MAP (default_language E) of
        None \<Rightarrow> (None, None)
      | Some table \<Rightarrow>
          if default_language E = ''en'' then
            (if startswith hd_str ''Etymology''
             then (Some ''etymology_section'', Some ''EtymologicallyDerivedFrom'')
             else (case table hd_str of
                     None \<Rightarrow> (Some ''definition_section'', None)
                   | Some rr \<Rightarrow> rr))
          else (case table hd_str of None \<Rightarrow> (None, None) | Some rr \<Rightarrow> rr))"

definition check_titledb :: "'e env \<Rightarrow> string \<Rightarrow> string \<Rightarrow> bool" where
  "check_titledb E lang ttl = titles E (lang, str_lower E ttl)"

definition disambiguate_language :: "'e env \<Rightarrow> string \<times> string \<Rightarrow> string \<Rightarrow> string option" where
  "disambiguate_language E options ttl =
     (case options of (o1, o2) \<Rightarrow>
        if check_titledb E o1 ttl then Some o1
        else if check_titledb E o2 ttl then Some o2
        else None)"

text \<open>\<open>text.rstrip('\n')\<close>.\<close>

definition rstrip_newlines :: "string \<Rightarrow> string" where
  "rstrip_newlines s = rev (dropWhile (\<lambda>c. c = CHR 0x0A) (rev s))"

text \<open>
  The recursive section walker. The local variable \<open>language\<close> is assigned in one place
  only, the pair of candidates of a definition section; it is \<open>Some\<close> of that pair once
  assigned and \<open>None\<close> while it is unbound. Reading it unbound, in
  \<open>isinstance(language, tuple)\<close>, raises \<open>UnboundLocalError\<close>; the \<open>else\<close> branch of that
  test would need \<open>language\<close> bound to something that is not a pair, which no
  assignment does. \<open>POS_HEADINGS[headlang]\<close> raises \<open>KeyError\<close> for a language without a
  table. The second function is the loop over the subsections, with the edges so far.
\<close>

fun parse_structured_section ::
    "'e env \<Rightarrow> Section \<Rightarrow> string \<Rightarrow> string \<Rightarrow> string option \<Rightarrow> error + 'e list"
  and parse_subsections ::
    "'e env \<Rightarrow> Section list \<Rightarrow> string \<Rightarrow> string \<Rightarrow> string option \<Rightarrow> 'e list \<Rightarrow> error + 'e list"
where
  "parse_structured_section E (Section hd_str txt subs) headlang headword headpos =
     (case POS_HEADINGS headlang of
        None \<Rightarrow> Inl KeyError
      | Some pos_table \<Rightarrow>
          (let headpos1 = (case pos_table hd_str of
                             None \<Rightarrow> headpos
                           | Some p \<Rightarrow> (if headpos = None then Some p else headpos));
               rule = fst (get_rule_for_heading E hd_str);
               relation = snd (get_rule_for_heading E hd_str);
               language_var =
                 (if rule \<in> set [Some ''definition_section'', Some ''definition_section_de'']
                  then Some (default_language E, headlang) else None)
           in case (case rule of
                      None \<Rightarrow> Inr []
                    | Some rule_name \<Rightarrow>
                        (case parse E (rstrip_newlines txt @ [CHR 0x0A]) rule_name of
                           Inl e \<Rightarrow> Inl e
                         | Inr edge_info \<Rightarrow>
                             (let edge_info1 =
                                    (case relation of
                                       None \<Rightarrow> edge_info
                                     | Some r \<Rightarrow> map (\<lambda>ei. set_rel ei (Some r)) edge_info)
                              in case language_var of
                                   None \<Rightarrow> Inl UnboundLocalError
                                 | Some options \<Rightarrow>
                                     Inr (map (\<lambda>ei. complete_edge E ei rule_name headlang
                                                      headword headpos1)
                                            (filter (\<lambda>ei. target ei \<notin> BAD_NAMES_FOR_THINGS E
                                                          \<and> language ei \<noteq> None)
                                               (map (\<lambda>ei. set_default_language ei
                                                        (disambiguate_language E options
                                                           (target ei)))
                                                  edge_info1)))))) of
                Inl e \<Rightarrow> Inl e
              | Inr edges \<Rightarrow> parse_subsections E subs headlang headword headpos1 edges))"
| "parse_subsections E [] headlang headword headpos edges = Inr edges"
| "parse_subsections E (s # rest) headlang headword headpos edges =
     (case parse_structured_section E s headlang headword headpos of
        Inl e \<Rightarrow> Inl e
      | Inr es \<Rightarrow> parse_subsections E rest headlang headword headpos (edges @ es))"

text \<open>
  The loop of \<open>parse_structured_entry\<close> over the top-level sections: an exception of a
  section is caught and counted, its edges are not added.
\<close>

fun entry_loop ::
  "'e env \<Rightarrow> Section list \<Rightarrow> string \<Rightarrow> string \<Rightarrow> 'e list \<Rightarrow> nat \<Rightarrow> 'e list \<times> nat" where
  "entry_loop E [] langcode ttl edges failures = (edges, failures)"
| "entry_loop E (s # rest) langcode ttl edges failures =
     (case parse_structured_section E s langcode ttl None of
        Inl e \<Rightarrow> entry_loop E rest langcode ttl edges (failures + 1)
      | Inr es \<Rightarrow> entry_loop E rest langcode ttl (edges @ es) failures)"

definition parse_structured_entry :: "'e env \<Rightarrow> StructuredEntry \<Rightarrow> error + 'e list" where
  "parse_structured_entry E structure =
     (if entry_language structure \<in> set SKIPPED_LANGUAGES then Inr []
      else
        (case language_code E (entry_language structure) of
           None \<Rightarrow> Inr []
         | Some langcode \<Rightarrow>
             (case entry_loop E (entry_sections structure) langcode (title structure) [] 0 of
                (edges, failures) \<Rightarrow>
                  if failures \<le> 1 then Inr edges else Inl AssertionError)))"

subsection \<open>An example environment\<close>

text \<open>
  A small instance of what the module takes from outside, for running the functions on
  concrete inputs: an English Wiktionary whose parser knows one definition section and one
  link section, concept URIs of the form \<open>/c/lang/text/...\<close>, and \<open>make_edge\<close> returning
  its arguments.
\<close>

definition example_env :: "edge_args env" where
  "example_env =
     \<lparr>default_language = ''en'',
      parse = (\<lambda>txt rule.
        if rule = ''definition_section'' then
          Inr [\<lparr>language = Some ''en'', target = ''hound'', sense = None, rel = None\<rparr>]
        else if rule = ''link_section'' then
          Inr [\<lparr>language = Some ''en'', target = ''mammal'', sense = None, rel = None\<rparr>]
        else Inl (ParseFailure rule)),
      titles = (\<lambda>p. p = (''en'', ''hound'')),
      str_lower = (\<lambda>s. s),
      BAD_NAMES_FOR_THINGS = {''it'', ''something''},
      normalized_concept_uri = (\<lambda>lang txt more.
        ''/c/'' @ (case lang of None \<Rightarrow> [] | Some l \<Rightarrow> l) @ ''/'' @ txt
          @ concat (map (\<lambda>m. case m of None \<Rightarrow> [] | Some x \<Rightarrow> ''/'' @ x) more)),
      join_uri = (\<lambda>pieces. concat (map (\<lambda>p. ''/'' @ dropWhile (\<lambda>c. c = CHR ''/'') p) pieces)),
      make_edge = (\<lambda>a. a),
      cc_sharealike = ''cc:by-sa/4.0'',
      ENGLISH_NAME_TO_CODE = map_of [(''English'', ''en''), (''French'', ''fr'')]\<rparr>"

text \<open>
  The link templates that name an argument they need, and what "missing" means for each:
  the test the template's branch makes on its argument fails (the argument is absent,
  \<open>None\<close> or empty). For \<open>l\<close> both forms must fail: no second argument, and no subtype or
  no first argument.
\<close>

definition required_argument_missing :: "link_template_ast \<Rightarrow> bool" where
  "required_argument_missing ast =
     (let a = fst (collect_args (args ast) [] []);
          lt = linktype ast
      in (lt = ''l'' \<and> \<not> truthy (arg a (Pos 2))
            \<and> (subtypes ast \<in> {None, Some []} \<or> \<not> truthy (arg a (Pos 1))))
       \<or> (lt = ''term/t'' \<and> \<not> truthy (arg a (Pos 2)))
       \<or> (lt \<in> {''term'', ''ja-l'', ''ko-inline'', ''back-form'', ''clipping'', ''-er''}
            \<and> \<not> truthy (arg a (Pos 1)))
       \<or> (lt \<in> {''borrowing'', ''etycomp''} \<and> \<not> truthy (arg a (Pos 2))))"

section \<open>Properties\<close>

subsection \<open>LinkedText concatenation\<close>

text \<open>
  Claim C8, as the code has it: for two LinkedText values whose texts are strings,
  \<open>a + b\<close> has the text of \<open>a\<close>, one space, the text of \<open>b\<close>, and the links of \<open>a\<close>
  followed by the links of \<open>b\<close>.
\<close>

theorem LinkedText_add_concat:
  assumes "ltext a = Some ta" and "ltext b = Some tb"
  shows "LinkedText_add a b = Inr \<lparr>ltext = Some (ta @ '' '' @ tb), links = links a @ links b\<rparr>"
  using assms by (simp add: LinkedText_add_def LinkedText_init_def)

theorem LinkedText_add_concat_witness:
  "LinkedText_add
     \<lparr>ltext = Some ''see'',
      links = [\<lparr>language = Some ''en'', target = ''cat'', sense = None, rel = None\<rparr>]\<rparr>
     \<lparr>ltext = Some ''also'',
      links = [\<lparr>language = Some ''fr'', target = ''chat'', sense = None, rel = None\<rparr>]\<rparr>
   = Inr \<lparr>ltext = Some ''see also'',
          links = [\<lparr>language = Some ''en'', target = ''cat'', sense = None, rel = None\<rparr>,
                   \<lparr>language = Some ''fr'', target = ''chat'', sense = None, rel = None\<rparr>]\<rparr>"
  using LinkedText_add_concat
    [of "\<lparr>ltext = Some ''see'',
          links = [\<lparr>language = Some ''en'', target = ''cat'', sense = None, rel = None\<rparr>]\<rparr>"
        "''see''"
        "\<lparr>ltext = Some ''also'',
          links = [\<lparr>language = Some ''fr'', target = ''chat'', sense = None, rel = None\<rparr>]\<rparr>"
        "''also''"]
  by simp

text \<open>
  A LinkedText whose text is \<open>None\<close>, as \<open>external_link\<close> builds for a link without a
  title, cannot be added: the concatenation of the texts raises.
\<close>

theorem LinkedText_add_null_text_counterexample:
  "LinkedText_add \<lparr>ltext = None, links = []\<rparr> \<lparr>ltext = Some ''b'', links = []\<rparr> = Inl TypeError"
  by (simp add: LinkedText_add_def)

subsection \<open>The default language of an EdgeInfo\<close>

text \<open>
  Claim C9, as the code has it: the test is the truth value of the language, so an
  EdgeInfo whose language is a non-empty string is returned unchanged, and one whose
  language is \<open>None\<close> or the empty string gets the language \<open>L\<close>, the other fields
  unchanged.
\<close>

theorem set_default_language_fills_missing:
  "((\<exists>l. language ei = Some l \<and> l \<noteq> []) \<longrightarrow> set_default_language ei L = ei) \<and>
   (language ei = None \<or> language ei = Some [] \<longrightarrow>
      set_default_language ei L = ei\<lparr>language := L\<rparr>)"
  by (auto simp: set_default_language_def)

theorem set_default_language_fills_missing_witness:
  "set_default_language
     \<lparr>language = Some ''fr'', target = ''eau'', sense = None, rel = Some ''TranslationOf''\<rparr>
     (Some ''en'')
     = \<lparr>language = Some ''fr'', target = ''eau'', sense = None, rel = Some ''TranslationOf''\<rparr> \<and>
   set_default_language
     \<lparr>language = None, target = ''eau'', sense = Some ''1'', rel = Some ''TranslationOf''\<rparr>
     (Some ''en'')
     = \<lparr>language = Some ''en'', target = ''eau'', sense = Some ''1'',
        rel = Some ''TranslationOf''\<rparr>"
  using set_default_language_fills_missing
          [of "\<lparr>language = Some ''fr'', target = ''eau'', sense = None,
                rel = Some ''TranslationOf''\<rparr>" "Some ''en''"]
        set_default_language_fills_missing
          [of "\<lparr>language = None, target = ''eau'', sense = Some ''1'',
                rel = Some ''TranslationOf''\<rparr>" "Some ''en''"]
  by simp

text \<open>
  An EdgeInfo whose language is the empty string has a language that is not \<open>None\<close>, and
  is not returned unchanged.
\<close>

theorem set_default_language_empty_counterexample:
  "language \<lparr>language = Some [], target = ''eau'', sense = None, rel = None\<rparr> \<noteq> None \<and>
   set_default_language \<lparr>language = Some [], target = ''eau'', sense = None, rel = None\<rparr>
       (Some ''en'')
     \<noteq> \<lparr>language = Some [], target = ''eau'', sense = None, rel = None\<rparr>"
  by (simp add: set_default_language_def)

subsection \<open>join_text\<close>

text \<open>What the loop of \<open>join_text\<close> returns, for any starting accumulators.\<close>

lemma join_loop_result:
  "join_loop items texts lks =
     (if IOther \<in> set items then Inl TypeError
      else Inr (texts @ concat (map (\<lambda>i. case i of
                                            IStr s \<Rightarrow> [s]
                                          | ILinked lt \<Rightarrow> (case ltext lt of None \<Rightarrow> [] | Some t \<Rightarrow> [t])
                                          | _ \<Rightarrow> []) items),
                lks @ concat (map (\<lambda>i. case i of ILinked lt \<Rightarrow> links lt | _ \<Rightarrow> []) items)))"
  by (induction items texts lks rule: join_loop.induct) (auto split: option.splits)

text \<open>
  Claim C10, as the code has it: \<open>join_text\<close> of \<open>None\<close> returns \<open>None\<close>; of a list whose
  elements are all \<open>None\<close>, strings, LinkedText values or dicts it returns a LinkedText;
  of a list with an element of any other type it raises \<open>TypeError\<close>.
\<close>

theorem join_text_null_or_linked:
  "join_text None = Inr None \<and>
   (IOther \<notin> set items \<longrightarrow> (\<exists>lt. join_text (Some items) = Inr (Some lt))) \<and>
   (IOther \<in> set items \<longrightarrow> join_text (Some items) = Inl TypeError)"
  by (simp add: join_text_def join_loop_result)

theorem join_text_null_or_linked_witness:
  "join_text None = Inr None \<and>
   (\<exists>lt. join_text (Some [IStr ''a '', INone, ILinked \<lparr>ltext = Some ''dog'', links = []\<rparr>,
                           IDict ''archaic'' []])
           = Inr (Some lt)) \<and>
   join_text (Some [IStr ''a '', IOther]) = Inl TypeError"
  using join_text_null_or_linked
          [of "[IStr ''a '', INone, ILinked \<lparr>ltext = Some ''dog'', links = []\<rparr>,
                IDict ''archaic'' []]"]
        join_text_null_or_linked [of "[IStr ''a '', IOther]"]
  by simp

text \<open>A list that is not \<open>None\<close> and for which no LinkedText is returned.\<close>

theorem join_text_other_item_counterexample:
  "join_text (Some [IOther]) = Inl TypeError"
  by (simp add: join_text_def)

subsection \<open>Edge completion\<close>

text \<open>
  Claim C4: \<open>complete_edge\<close> uses the relation \<open>RelatedTo\<close> when the relation of the
  EdgeInfo is \<open>None\<close> (or empty); when the relation begins with \<open>~\<close> the edge carries the
  relation without the prefix, starts at the target concept and ends at the head concept;
  for every other relation it starts at the head concept and ends at the target concept.
\<close>

theorem complete_edge_relation:
  "(rel ei = None \<or> rel ei = Some [] \<longrightarrow>
      (\<exists>s. complete_edge E ei rule_name headlang headword headpos =
         make_edge E
           \<lparr>rel_uri = join_uri E [''/r'', ''RelatedTo''],
            start_uri = normalized_concept_uri E (Some headlang) headword [headpos, s],
            end_uri = normalized_concept_uri E (language ei) (target ei) [],
            dataset = ''/d/wiktionary/en/'' @ headlang,
            license = cc_sharealike E,
            sources = [join_uri E [''/s/web/en.wiktionary.org/wiki'', headword],
                       join_uri E [''/s/rule'', rule_name]],
            weight = 1\<rparr>)) \<and>
   (\<forall>r. rel ei = Some (CHR ''~'' # r) \<longrightarrow>
      (\<exists>s. complete_edge E ei rule_name headlang headword headpos =
         make_edge E
           \<lparr>rel_uri = join_uri E [''/r'', r],
            start_uri = normalized_concept_uri E (language ei) (target ei) [],
            end_uri = normalized_concept_uri E (Some headlang) headword [headpos, s],
            dataset = ''/d/wiktionary/en/'' @ headlang,
            license = cc_sharealike E,
            sources = [join_uri E [''/s/web/en.wiktionary.org/wiki'', headword],
                       join_uri E [''/s/rule'', rule_name]],
            weight = 1\<rparr>)) \<and>
   (\<forall>r. rel ei = Some r \<and> r \<noteq> [] \<and> \<not> startswith r ''~'' \<longrightarrow>
      (\<exists>s. complete_edge E ei rule_name headlang headword headpos =
         make_edge E
           \<lparr>rel_uri = join_uri E [''/r'', r],
            start_uri = normalized_concept_uri E (Some headlang) headword [headpos, s],
            end_uri = normalized_concept_uri E (language ei) (target ei) [],
            dataset = ''/d/wiktionary/en/'' @ headlang,
            license = cc_sharealike E,
            sources = [join_uri E [''/s/web/en.wiktionary.org/wiki'', headword],
                       join_uri E [''/s/rule'', rule_name]],
            weight = 1\<rparr>))"
proof (intro conjI allI impI)
  assume "rel ei = None \<or> rel ei = Some []"
  then have "rel_or_default ei = ''RelatedTo''"
    by (auto simp: rel_or_default_def)
  then show "\<exists>s. complete_edge E ei rule_name headlang headword headpos =
         make_edge E
           \<lparr>rel_uri = join_uri E [''/r'', ''RelatedTo''],
            start_uri = normalized_concept_uri E (Some headlang) headword [headpos, s],
            end_uri = normalized_concept_uri E (language ei) (target ei) [],
            dataset = ''/d/wiktionary/en/'' @ headlang,
            license = cc_sharealike E,
            sources = [join_uri E [''/s/web/en.wiktionary.org/wiki'', headword],
                       join_uri E [''/s/rule'', rule_name]],
            weight = 1\<rparr>"
    by (simp add: complete_edge_def Let_def) blast
next
  fix r assume "rel ei = Some (CHR ''~'' # r)"
  then have "rel_or_default ei = CHR ''~'' # r"
    by (simp add: rel_or_default_def)
  then show "\<exists>s. complete_edge E ei rule_name headlang headword headpos =
         make_edge E
           \<lparr>rel_uri = join_uri E [''/r'', r],
            start_uri = normalized_concept_uri E (language ei) (target ei) [],
            end_uri = normalized_concept_uri E (Some headlang) headword [headpos, s],
            dataset = ''/d/wiktionary/en/'' @ headlang,
            license = cc_sharealike E,
            sources = [join_uri E [''/s/web/en.wiktionary.org/wiki'', headword],
                       join_uri E [''/s/rule'', rule_name]],
            weight = 1\<rparr>"
    by (simp add: complete_edge_def Let_def) blast
next
  fix r assume "rel ei = Some r \<and> r \<noteq> [] \<and> \<not> startswith r ''~''"
  then have "rel_or_default ei = r" and "\<not> startswith r ''~''"
    by (simp_all add: rel_or_default_def)
  then show "\<exists>s. complete_edge E ei rule_name headlang headword headpos =
         make_edge E
           \<lparr>rel_uri = join_uri E [''/r'', r],
            start_uri = normalized_concept_uri E (Some headlang) headword [headpos, s],
            end_uri = normalized_concept_uri E (language ei) (target ei) [],
            dataset = ''/d/wiktionary/en/'' @ headlang,
            license = cc_sharealike E,
            sources = [join_uri E [''/s/web/en.wiktionary.org/wiki'', headword],
                       join_uri E [''/s/rule'', rule_name]],
            weight = 1\<rparr>"
    by (simp add: complete_edge_def Let_def) blast
qed

theorem complete_edge_relation_witness:
  "complete_edge example_env
     \<lparr>language = Some ''en'', target = ''hound'', sense = None, rel = None\<rparr>
     ''definition_section'' ''en'' ''dog'' (Some ''n'')
   = \<lparr>rel_uri = ''/r/RelatedTo'', start_uri = ''/c/en/dog/n'', end_uri = ''/c/en/hound'',
      dataset = ''/d/wiktionary/en/en'', license = ''cc:by-sa/4.0'',
      sources = [''/s/web/en.wiktionary.org/wiki/dog'', ''/s/rule/definition_section''],
      weight = 1\<rparr> \<and>
   complete_edge example_env
     \<lparr>language = Some ''en'', target = ''poodle'', sense = None, rel = Some ''~IsA''\<rparr>
     ''link_section'' ''en'' ''dog'' (Some ''n'')
   = \<lparr>rel_uri = ''/r/IsA'', start_uri = ''/c/en/poodle'', end_uri = ''/c/en/dog/n'',
      dataset = ''/d/wiktionary/en/en'', license = ''cc:by-sa/4.0'',
      sources = [''/s/web/en.wiktionary.org/wiki/dog'', ''/s/rule/link_section''],
      weight = 1\<rparr> \<and>
   complete_edge example_env
     \<lparr>language = Some ''en'', target = ''mammal'', sense = None, rel = Some ''IsA''\<rparr>
     ''link_section'' ''en'' ''dog'' (Some ''n'')
   = \<lparr>rel_uri = ''/r/IsA'', start_uri = ''/c/en/dog/n'', end_uri = ''/c/en/mammal'',
      dataset = ''/d/wiktionary/en/en'', license = ''cc:by-sa/4.0'',
      sources = [''/s/web/en.wiktionary.org/wiki/dog'', ''/s/rule/link_section''],
      weight = 1\<rparr>"
  using complete_edge_relation
          [of "\<lparr>language = Some ''en'', target = ''hound'', sense = None, rel = None\<rparr>"
              example_env "''definition_section''" "''en''" "''dog''" "Some ''n''"]
        complete_edge_relation
          [of "\<lparr>language = Some ''en'', target = ''poodle'', sense = None, rel = Some ''~IsA''\<rparr>"
              example_env "''link_section''" "''en''" "''dog''" "Some ''n''"]
        complete_edge_relation
          [of "\<lparr>language = Some ''en'', target = ''mammal'', sense = None, rel = Some ''IsA''\<rparr>"
              example_env "''link_section''" "''en''" "''dog''" "Some ''n''"]
  by (simp add: example_env_def complete_edge_def in_bad_names_def rel_or_default_def)

text \<open>
  Claim C7: when \<open>headpos\<close> is \<open>None\<close>, and also when the sense is one of the bad names,
  the URI of the head concept is built with no sense (\<open>None\<close> in its place), so the edge is
  the one the same EdgeInfo without a sense gives. The emitted start is that URI, or,
  under \<open>~\<close>, the URI of the target, which never has a sense.
\<close>

theorem complete_edge_drops_sense:
  assumes "headpos = None \<or> (\<exists>s. sense ei = Some s \<and> s \<in> BAD_NAMES_FOR_THINGS E)"
  shows "complete_edge E ei rule_name headlang headword headpos =
           make_edge E
             \<lparr>rel_uri = join_uri E [''/r'', if startswith (rel_or_default ei) ''~''
                                              then drop 1 (rel_or_default ei)
                                              else rel_or_default ei],
              start_uri = (if startswith (rel_or_default ei) ''~''
                           then normalized_concept_uri E (language ei) (target ei) []
                           else normalized_concept_uri E (Some headlang) headword [headpos, None]),
              end_uri = (if startswith (rel_or_default ei) ''~''
                         then normalized_concept_uri E (Some headlang) headword [headpos, None]
                         else normalized_concept_uri E (language ei) (target ei) []),
              dataset = ''/d/wiktionary/en/'' @ headlang,
              license = cc_sharealike E,
              sources = [join_uri E [''/s/web/en.wiktionary.org/wiki'', headword],
                         join_uri E [''/s/rule'', rule_name]],
              weight = 1\<rparr>
         \<and> complete_edge E ei rule_name headlang headword headpos =
             complete_edge E (ei\<lparr>sense := None\<rparr>) rule_name headlang headword headpos"
  using assms
  by (auto simp: complete_edge_def Let_def in_bad_names_def rel_or_default_def)

theorem complete_edge_drops_sense_witness:
  "complete_edge example_env
     \<lparr>language = Some ''en'', target = ''hound'', sense = Some ''it'', rel = Some ''Synonym''\<rparr>
     ''link_section'' ''en'' ''dog'' (Some ''n'')
   = \<lparr>rel_uri = ''/r/Synonym'', start_uri = ''/c/en/dog/n'', end_uri = ''/c/en/hound'',
      dataset = ''/d/wiktionary/en/en'', license = ''cc:by-sa/4.0'',
      sources = [''/s/web/en.wiktionary.org/wiki/dog'', ''/s/rule/link_section''],
      weight = 1\<rparr> \<and>
   complete_edge example_env
     \<lparr>language = Some ''en'', target = ''poodle'', sense = Some ''canine'', rel = Some ''~IsA''\<rparr>
     ''link_section'' ''en'' ''dog'' None
   = \<lparr>rel_uri = ''/r/IsA'', start_uri = ''/c/en/poodle'', end_uri = ''/c/en/dog'',
      dataset = ''/d/wiktionary/en/en'', license = ''cc:by-sa/4.0'',
      sources = [''/s/web/en.wiktionary.org/wiki/dog'', ''/s/rule/link_section''],
      weight = 1\<rparr>"
  using complete_edge_drops_sense
          [of "Some ''n''"
              "\<lparr>language = Some ''en'', target = ''hound'', sense = Some ''it'',
                rel = Some ''Synonym''\<rparr>"
              example_env "''link_section''" "''en''" "''dog''"]
        complete_edge_drops_sense
          [of None
              "\<lparr>language = Some ''en'', target = ''poodle'', sense = Some ''canine'',
                rel = Some ''~IsA''\<rparr>"
              example_env "''link_section''" "''en''" "''dog''"]
  by (simp add: example_env_def rel_or_default_def)

subsection \<open>The entry walker\<close>

text \<open>
  Claim C6: an entry whose language is Lojban, Translingual or American Sign Language,
  or whose language name has no code in \<open>ENGLISH_NAME_TO_CODE\<close>, gives no edges.
\<close>

theorem skipped_or_unmapped_language_no_edges:
  assumes "entry_language structure \<in> {''Lojban'', ''Translingual'', ''American Sign Language''}
           \<or> ENGLISH_NAME_TO_CODE E (entry_language structure) = None"
  shows "parse_structured_entry E structure = Inr []"
  using assms by (auto simp: parse_structured_entry_def SKIPPED_LANGUAGES_def language_code_def)

theorem skipped_or_unmapped_language_no_edges_witness:
  "parse_structured_entry example_env
     \<lparr>entry_language = ''Lojban'', title = ''gerku'',
      entry_sections = [Section ''Noun'' ''# A [[hound]].'' []]\<rparr> = Inr [] \<and>
   parse_structured_entry example_env
     \<lparr>entry_language = ''Klingon'', title = ''targh'',
      entry_sections = [Section ''Noun'' ''# A [[hound]].'' []]\<rparr> = Inr []"
  using skipped_or_unmapped_language_no_edges
          [of "\<lparr>entry_language = ''Lojban'', title = ''gerku'',
                entry_sections = [Section ''Noun'' ''# A [[hound]].'' []]\<rparr>" example_env]
        skipped_or_unmapped_language_no_edges
          [of "\<lparr>entry_language = ''Klingon'', title = ''targh'',
                entry_sections = [Section ''Noun'' ''# A [[hound]].'' []]\<rparr>" example_env]
  by (simp add: example_env_def)

text \<open>
  The loop over the top-level sections adds the edges of the sections that return and
  counts the sections that raise.
\<close>

lemma entry_loop_result:
  "entry_loop E secs langcode ttl edges failures =
     (edges @ concat (map (\<lambda>s. case parse_structured_section E s langcode ttl None of
                                  Inl e \<Rightarrow> [] | Inr es \<Rightarrow> es) secs),
      failures + length (filter (\<lambda>s. isl (parse_structured_section E s langcode ttl None)) secs))"
  by (induction secs arbitrary: edges failures) (auto split: sum.splits)

text \<open>Two sections of the example entry: a definition section returns, a link section raises.\<close>

lemma example_noun_section:
  "parse_structured_section example_env (Section ''Noun'' ''# A [[hound]].'' []) ''en'' ''dog'' None
   = Inr [\<lparr>rel_uri = ''/r/RelatedTo'', start_uri = ''/c/en/dog/n'', end_uri = ''/c/en/hound'',
      dataset = ''/d/wiktionary/en/en'', license = ''cc:by-sa/4.0'',
      sources = [''/s/web/en.wiktionary.org/wiki/dog'', ''/s/rule/definition_section''],
      weight = 1\<rparr>]"
  by (simp add: example_env_def POS_HEADINGS_def get_rule_for_heading_def
        RULES_AND_RELATIONS_MAP_def set_default_language_def complete_edge_def
        in_bad_names_def rel_or_default_def Let_def)

lemma example_link_section:
  "parse_structured_section example_env (Section ''Hypernyms'' ''* {{l|en|mammal}}'' [])
     ''en'' ''dog'' None
   = Inl UnboundLocalError"
  by (simp add: example_env_def POS_HEADINGS_def get_rule_for_heading_def
        RULES_AND_RELATIONS_MAP_def Let_def)

lemma example_translation_section:
  "parse_structured_section example_env (Section ''Translations'' ''{{trans-top|pet}}'' [])
     ''en'' ''dog'' None
   = Inl (ParseFailure ''translation_section'')"
  by (simp add: example_env_def POS_HEADINGS_def get_rule_for_heading_def
        RULES_AND_RELATIONS_MAP_def Let_def)

text \<open>
  Claim C5: for an entry that is processed (its language is not skipped and has a code),
  when at most one top-level section raises, \<open>parse_structured_entry\<close> returns the edges
  of the sections that did not raise, in order; when more than one raises, it raises
  \<open>AssertionError\<close>.
\<close>

theorem parse_structured_entry_failures:
  assumes "entry_language structure \<notin> set SKIPPED_LANGUAGES"
    and "language_code E (entry_language structure) = Some langcode"
  shows
    "(length (filter (\<lambda>s. isl (parse_structured_section E s langcode (title structure) None))
               (entry_sections structure)) \<le> 1 \<longrightarrow>
        parse_structured_entry E structure =
          Inr (concat (map (\<lambda>s. case parse_structured_section E s langcode (title structure) None of
                                   Inl e \<Rightarrow> [] | Inr es \<Rightarrow> es)
                         (entry_sections structure)))) \<and>
     (length (filter (\<lambda>s. isl (parse_structured_section E s langcode (title structure) None))
               (entry_sections structure)) > 1 \<longrightarrow>
        parse_structured_entry E structure = Inl AssertionError)"
  using assms by (simp add: parse_structured_entry_def entry_loop_result)

theorem parse_structured_entry_failures_witness:
  "parse_structured_entry example_env
     \<lparr>entry_language = ''English'', title = ''dog'',
      entry_sections = [Section ''Hypernyms'' ''* {{l|en|mammal}}'' [],
                        Section ''Noun'' ''# A [[hound]].'' []]\<rparr>
   = Inr [\<lparr>rel_uri = ''/r/RelatedTo'', start_uri = ''/c/en/dog/n'', end_uri = ''/c/en/hound'',
      dataset = ''/d/wiktionary/en/en'', license = ''cc:by-sa/4.0'',
      sources = [''/s/web/en.wiktionary.org/wiki/dog'', ''/s/rule/definition_section''],
      weight = 1\<rparr>] \<and>
   parse_structured_entry example_env
     \<lparr>entry_language = ''English'', title = ''dog'',
      entry_sections = [Section ''Hypernyms'' ''* {{l|en|mammal}}'' [],
                        Section ''Noun'' ''# A [[hound]].'' [],
                        Section ''Translations'' ''{{trans-top|pet}}'' []]\<rparr>
   = Inl AssertionError"
proof -
  let ?one = "\<lparr>entry_language = ''English'', title = ''dog'',
      entry_sections = [Section ''Hypernyms'' ''* {{l|en|mammal}}'' [],
                        Section ''Noun'' ''# A [[hound]].'' []]\<rparr>"
  let ?two = "\<lparr>entry_language = ''English'', title = ''dog'',
      entry_sections = [Section ''Hypernyms'' ''* {{l|en|mammal}}'' [],
                        Section ''Noun'' ''# A [[hound]].'' [],
                        Section ''Translations'' ''{{trans-top|pet}}'' []]\<rparr>"
  have skip: "entry_language ?one \<notin> set SKIPPED_LANGUAGES"
    "entry_language ?two \<notin> set SKIPPED_LANGUAGES"
    by (simp_all add: SKIPPED_LANGUAGES_def)
  have code: "language_code example_env (entry_language ?one) = Some ''en''"
    "language_code example_env (entry_language ?two) = Some ''en''"
    by (simp_all add: language_code_def example_env_def)
  show ?thesis
    using parse_structured_entry_failures [OF skip(1) code(1)]
      parse_structured_entry_failures [OF skip(2) code(2)]
    by (simp add: example_noun_section example_link_section example_translation_section
          del: parse_structured_section.simps)
qed

text \<open>
  A section whose rule is not a definition rule never binds \<open>language\<close>: once its text has
  been parsed, the walker raises instead of setting a default language.
\<close>

lemma non_definition_section_raises:
  assumes "POS_HEADINGS headlang = Some tbl"
    and "get_rule_for_heading E h = (Some rule_name, relation)"
    and "rule_name \<noteq> ''definition_section''" and "rule_name \<noteq> ''definition_section_de''"
    and "parse E (rstrip_newlines txt @ [CHR 0x0A]) rule_name = Inr edge_info"
  shows "parse_structured_section E (Section h txt subs) headlang headword headpos
           = Inl UnboundLocalError"
  using assms by (simp add: Let_def)

text \<open>
  Claim C1 says that for a section with a handler that is not a definition section the
  walker sets the default language of every EdgeInfo to the head language and emits its
  edge. On the section \<open>Synonyms\<close> of the English entry \<open>dog\<close> the heading dispatches to
  \<open>link_section\<close>, the parser returns one EdgeInfo, and the walker raises
  \<open>UnboundLocalError\<close>: no edge is emitted.
\<close>

theorem synonyms_section_unbound_language:
  "get_rule_for_heading example_env ''Synonyms'' = (Some ''link_section'', Some ''Synonym'') \<and>
   parse example_env (rstrip_newlines ''* {{l|en|mammal}}'' @ [CHR 0x0A]) ''link_section''
     = Inr [\<lparr>language = Some ''en'', target = ''mammal'', sense = None, rel = None\<rparr>] \<and>
   parse_structured_section example_env (Section ''Synonyms'' ''* {{l|en|mammal}}'' [])
       ''en'' ''dog'' None
     = Inl UnboundLocalError"
  by (simp add: example_env_def POS_HEADINGS_def get_rule_for_heading_def
        RULES_AND_RELATIONS_MAP_def Let_def)

subsection \<open>sense_num\<close>

text \<open>
  Claim C3 says that a dash form \<open>a-b\<close> is expanded to every number from \<open>a\<close> to \<open>b\<close>,
  as the whole expression or as an element of a list. On the whole expression \<open>1-3\<close> the
  rule matches the first alternative, \<open>first\<close> and \<open>last\<close>, and the result is the two
  ends: \<open>2\<close> is not in it.
\<close>

theorem sense_num_whole_dash_form:
  "parse_sense_num ''1-3'' =
     Some (\<lparr>sn_first = ''1'', sn_last = Some ''3'', sn_next = None, sn_next_range = None\<rparr>, []) \<and>
   sense_num \<lparr>sn_first = ''1'', sn_last = Some ''3'', sn_next = None, sn_next_range = None\<rparr>
     = Inr [''1'', ''3''] \<and>
   ''2'' \<notin> set [''1'', ''3'']"
  by code_simp

text \<open>
  The same happens when the dash form opens a list: the first alternative matches \<open>1-3\<close>
  and the rule stops before the comma.
\<close>

lemma sense_num_leading_dash_form:
  "parse_sense_num ''1-3,5'' =
     Some (\<lparr>sn_first = ''1'', sn_last = Some ''3'', sn_next = None, sn_next_range = None\<rparr>, '',5'')"
  by code_simp

text \<open>After a comma the dash form is a \<open>num_range\<close>, and that one is expanded.\<close>

lemma sense_num_range_in_list:
  "parse_sense_num ''5,1-3'' =
     Some (\<lparr>sn_first = ''5'', sn_last = None, sn_next = None,
            sn_next_range = Some [\<lparr>range_start = ''1'', range_end = ''3''\<rparr>]\<rparr>, []) \<and>
   sense_num \<lparr>sn_first = ''5'', sn_last = None, sn_next = None,
            sn_next_range = Some [\<lparr>range_start = ''1'', range_end = ''3''\<rparr>]\<rparr>
     = Inr [''1'', ''2'', ''3'', ''5'']"
  by code_simp

text \<open>
  In general: a range that stands in the list is expanded over every number between its
  ends, and all of them are in the result.
\<close>

lemma expand_range_inclusive:
  assumes "py_int (range_start r) = Inr a" and "py_int (range_end r) = Inr b"
  shows "expand_range r = Inr (map py_str [a ..< b + 1])"
  using assms by (simp add: expand_range_def)

lemma extend_ranges_keeps:
  "extend_ranges num_list rs = Inr out \<Longrightarrow> set num_list \<subseteq> set out"
proof (induction rs arbitrary: num_list)
  case Nil
  then show ?case by simp
next
  case (Cons r rs)
  from Cons.prems obtain xs where "extend_ranges (num_list @ xs) rs = Inr out"
    by (auto split: sum.splits)
  from Cons.IH [OF this] show ?case by simp
qed

lemma extend_ranges_expands:
  "extend_ranges num_list rs = Inr out \<Longrightarrow> r \<in> set rs \<Longrightarrow> expand_range r = Inr xs
     \<Longrightarrow> set xs \<subseteq> set out"
proof (induction rs arbitrary: num_list)
  case Nil
  then show ?case by simp
next
  case (Cons r' rs)
  show ?case
  proof (cases "r = r'")
    case True
    with Cons.prems have "extend_ranges (num_list @ xs) rs = Inr out" by simp
    from extend_ranges_keeps [OF this] show ?thesis by simp
  next
    case False
    with Cons.prems(2) have in_rs: "r \<in> set rs" by simp
    from Cons.prems(1) obtain ys where "extend_ranges (num_list @ ys) rs = Inr out"
      by (auto split: sum.splits)
    from Cons.IH [OF this in_rs Cons.prems(3)] show ?thesis .
  qed
qed

lemma sense_num_list_range_expanded:
  assumes "\<not> truthy (sn_last ast)" and "sn_next_range ast = Some rs" and "r \<in> set rs"
    and "py_int (range_start r) = Inr a" and "py_int (range_end r) = Inr b"
    and "sense_num ast = Inr out" and "a \<le> i" and "i \<le> b"
  shows "py_str i \<in> set out"
proof -
  let ?nl = "case sn_next ast of None \<Rightarrow> [sn_first ast] | Some ns \<Rightarrow> [sn_first ast] @ ns"
  have "sense_num ast =
          (case extend_ranges ?nl rs of Inl e \<Rightarrow> Inl e | Inr nl2 \<Rightarrow> Inr (sort nl2))"
    using assms(1,2) by (simp add: sense_num_def Let_def)
  with assms(6) obtain nl2 where e: "extend_ranges ?nl rs = Inr nl2" and out: "out = sort nl2"
    by (cases "extend_ranges ?nl rs") auto
  have sub: "set (map py_str [a ..< b + 1]) \<subseteq> set nl2"
    using extend_ranges_expands [OF e assms(3) expand_range_inclusive [OF assms(4,5)]] .
  have "i \<in> set [a ..< b + 1]"
    using assms(7,8) by auto
  then have "py_str i \<in> set (map py_str [a ..< b + 1])"
    unfolding set_map by (rule imageI)
  with sub have "py_str i \<in> set nl2" by blast
  then show ?thesis by (simp only: out set_sort)
qed

subsection \<open>link_template\<close>

text \<open>The links the first loop collects: those of every argument, in order.\<close>

lemma collect_args_links:
  "snd (collect_args targs a lks) =
     lks @ concat (map (\<lambda>(k, v). case v of None \<Rightarrow> [] | Some lt \<Rightarrow> links lt) targs)"
  by (induction targs a lks rule: collect_args.induct) auto

text \<open>
  When the test of every branch fails, the result has the empty text and the collected
  links.
\<close>

lemma link_template_fall_through:
  assumes c: "collect_args (args ast) [] [] = (a, lks)"
    and lt: "linktype ast = lt"
    and 1: "\<not> (lt = ''l'' \<and> subtypes ast \<notin> {None, Some []} \<and> truthy (arg a (Pos 1)))"
    and 2: "\<not> ((lt = ''l'' \<or> lt = ''term/t'') \<and> truthy (arg a (Pos 2)))"
    and 3: "\<not> ((lt = ''term'' \<or> lt = ''ja-l'' \<or> lt = ''ko-inline'' \<or> lt = ''back-form''
               \<or> lt = ''clipping'' \<or> lt = ''-er'') \<and> truthy (arg a (Pos 1)))"
    and 4: "\<not> (py_in_str lt ''borrowing'' \<and> truthy (arg a (Pos 2)))"
    and 5: "lt \<notin> set [''blend'', ''calque'', ''compound'', ''confix'', ''prefix'', ''suffix'']"
    and 6: "\<not> (lt = ''etycomp'' \<and> truthy (arg a (Pos 2)))"
  shows "link_template E ast = Inr \<lparr>ltext = Some [], links = lks\<rparr>"
proof -
  let ?subs = "case subtypes ast of None \<Rightarrow> [] | Some xs \<Rightarrow> xs"
  have s: "?subs \<noteq> [] \<longleftrightarrow> subtypes ast \<notin> {None, Some []}"
    by (cases "subtypes ast") auto
  have b1: "(lt = ''l'' \<and> ?subs \<noteq> [] \<and> truthy (arg a (Pos 1))) = False"
    using 1 s by blast
  have b2: "(lt \<in> set [''l'', ''term/t''] \<and> truthy (arg a (Pos 2))) = False"
    using 2 by auto
  have b3: "(lt = ''term'' \<and> truthy (arg a (Pos 1))) = False"
    using 3 by blast
  have b4: "(lt = ''ja-l'' \<and> truthy (arg a (Pos 1))) = False"
    using 3 by blast
  have b5: "(lt = ''ko-inline'' \<and> truthy (arg a (Pos 1))) = False"
    using 3 by blast
  have b6: "(lt \<in> set [''back-form'', ''clipping'', ''-er''] \<and> truthy (arg a (Pos 1))) = False"
    using 3 by auto
  have b7: "(py_in_str lt ''borrowing'' \<and> truthy (arg a (Pos 2))) = False"
    using 4 by blast
  have b8: "(lt \<in> set [''blend'', ''calque'', ''compound'', ''confix'', ''prefix'', ''suffix'']) = False"
    using 5 by blast
  have b9: "(lt = ''etycomp'' \<and> truthy (arg a (Pos 2))) = False"
    using 6 by blast
  show ?thesis
    unfolding link_template_def c lt Let_def prod.case
    by (simp only: b1 b2 b3 b4 b5 b6 b7 b8 b9 if_False LinkedText_init_def sum.case)
qed


text \<open>
  Claim C2, as the code has it: when the argument a link template needs is missing,
  \<open>link_template\<close> returns a LinkedText with the empty text whose links are the links
  found inside the values of the template's arguments, in the order of the arguments (none
  when no argument contains a link).
\<close>

theorem link_template_required_missing:
  assumes "required_argument_missing ast"
  shows "link_template E ast =
           Inr \<lparr>ltext = Some [],
                links = concat (map (\<lambda>(k, v). case v of None \<Rightarrow> [] | Some lt \<Rightarrow> links lt)
                                  (args ast))\<rparr>"
proof -
  obtain a lks where c: "collect_args (args ast) [] [] = (a, lks)"
    by (cases "collect_args (args ast) [] []")
  have lks: "concat (map (\<lambda>(k, v). case v of None \<Rightarrow> [] | Some lt \<Rightarrow> links lt) (args ast)) = lks"
    using collect_args_links [of "args ast" "[]" "[]"] c by simp
  from assms c consider
      (l) "linktype ast = ''l''" "\<not> truthy (arg a (Pos 2))"
          "subtypes ast \<in> {None, Some []} \<or> \<not> truthy (arg a (Pos 1))"
    | (term_t) "linktype ast = ''term/t''" "\<not> truthy (arg a (Pos 2))"
    | (first) "linktype ast \<in> {''term'', ''ja-l'', ''ko-inline'', ''back-form'', ''clipping'', ''-er''}"
          "\<not> truthy (arg a (Pos 1))"
    | (second) "linktype ast \<in> {''borrowing'', ''etycomp''}" "\<not> truthy (arg a (Pos 2))"
    unfolding required_argument_missing_def Let_def by auto
  then have "link_template E ast = Inr \<lparr>ltext = Some [], links = lks\<rparr>"
  proof cases
    case l
    show ?thesis
      by (rule link_template_fall_through [OF c l(1)]) (use l in auto)
  next
    case term_t
    show ?thesis
      by (rule link_template_fall_through [OF c term_t(1)]) (use term_t in auto)
  next
    case first
    show ?thesis
      by (rule link_template_fall_through [OF c refl]) (use first in auto)
  next
    case second
    show ?thesis
      by (rule link_template_fall_through [OF c refl]) (use second in auto)
  qed
  then show ?thesis by (simp only: lks)
qed

theorem link_template_required_missing_witness:
  "link_template example_env
     \<lparr>linktype = ''l'', subtypes = None,
      args = [(Pos 1, Some \<lparr>ltext = Some ''en'', links = []\<rparr>)]\<rparr>
     = Inr \<lparr>ltext = Some [], links = []\<rparr> \<and>
   link_template example_env
     \<lparr>linktype = ''term'', subtypes = None,
      args = [(Named ''lang'', Some \<lparr>ltext = Some ''la'', links = []\<rparr>)]\<rparr>
     = Inr \<lparr>ltext = Some [], links = []\<rparr> \<and>
   link_template example_env
     \<lparr>linktype = ''ja-l'', subtypes = None,
      args = [(Named ''tr'', Some \<lparr>ltext = Some ''inu'',
                 links = [\<lparr>language = Some ''en'', target = ''inu'', sense = None, rel = None\<rparr>]\<rparr>)]\<rparr>
     = Inr \<lparr>ltext = Some [],
            links = [\<lparr>language = Some ''en'', target = ''inu'', sense = None, rel = None\<rparr>]\<rparr>"
  using link_template_required_missing
          [of "\<lparr>linktype = ''l'', subtypes = None,
                args = [(Pos 1, Some \<lparr>ltext = Some ''en'', links = []\<rparr>)]\<rparr>" example_env]
        link_template_required_missing
          [of "\<lparr>linktype = ''term'', subtypes = None,
                args = [(Named ''lang'', Some \<lparr>ltext = Some ''la'', links = []\<rparr>)]\<rparr>" example_env]
        link_template_required_missing
          [of "\<lparr>linktype = ''ja-l'', subtypes = None,
                args = [(Named ''tr'', Some \<lparr>ltext = Some ''inu'',
                   links = [\<lparr>language = Some ''en'', target = ''inu'', sense = None, rel = None\<rparr>]\<rparr>)]\<rparr>"
              example_env]
  by (simp add: required_argument_missing_def arg_def)

text \<open>
  \<open>{{ja-l|tr=[[inu]]}}\<close> has no first argument, and the link inside its \<open>tr\<close> argument
  stays in the result: the links are not empty.
\<close>

theorem link_template_keeps_argument_links_counterexample:
  "required_argument_missing
     \<lparr>linktype = ''ja-l'', subtypes = None,
      args = [(Named ''tr'', Some \<lparr>ltext = Some ''inu'',
                 links = [\<lparr>language = Some ''en'', target = ''inu'', sense = None, rel = None\<rparr>]\<rparr>)]\<rparr> \<and>
   link_template example_env
     \<lparr>linktype = ''ja-l'', subtypes = None,
      args = [(Named ''tr'', Some \<lparr>ltext = Some ''inu'',
                 links = [\<lparr>language = Some ''en'', target = ''inu'', sense = None, rel = None\<rparr>]\<rparr>)]\<rparr>
   = Inr \<lparr>ltext = Some [],
          links = [\<lparr>language = Some ''en'', target = ''inu'', sense = None, rel = None\<rparr>]\<rparr> \<and>
   link_template example_env
     \<lparr>linktype = ''ja-l'', subtypes = None,
      args = [(Named ''tr'', Some \<lparr>ltext = Some ''inu'',
                 links = [\<lparr>language = Some ''en'', target = ''inu'', sense = None, rel = None\<rparr>]\<rparr>)]\<rparr>
   \<noteq> Inr \<lparr>ltext = Some [], links = []\<rparr>"
  by (simp add: required_argument_missing_def link_template_def arg_def LinkedText_init_def)

end
